theory Spec2Isabelle
  imports Complex_Main "HOL-Library.Sublist" "HOL-Library.AList"
begin

section \<open>Python values, exceptions and subscripting\<close>

text \<open>
  The notebook works on what \<^verbatim>\<open>json.loads\<close> returns: nested dicts, lists, strings,
  numbers, booleans and \<^verbatim>\<open>None\<close>. A dict is an association list in key order, read at
  its first entry for a key (a decoded JSON object has distinct keys). The type \<open>'f\<close>
  stands for Python's binary64 \<^verbatim>\<open>float\<close>. \<open>PPoint\<close> is a shapely point; \<open>PPolygon\<close> is a
  shapely polygon, given by its rings (the shell first), each ring by its vertices in
  order, each vertex by its two or three ordinates.
\<close>

datatype 'f pyval =
    PNone
  | PBool bool
  | PInt int
  | PFloat 'f
  | PStr string
  | PList "'f pyval list"
  | PDict "(string \<times> 'f pyval) list"
  | PPoint 'f 'f
  | PPolygon "'f list list list"

datatype pykey = KStr string | KInt int

datatype error =
    KeyError pykey
  | IndexError
  | TypeError
  | ValueError
  | AttributeError
  | ZeroDivisionError

type_synonym 'a result = "error + 'a"

text \<open>Sequencing: the first exception raised ends the evaluation.\<close>

definition ebind :: "'a result \<Rightarrow> ('a \<Rightarrow> 'b result) \<Rightarrow> 'b result" where
  "ebind m f = (case m of Inl e \<Rightarrow> Inl e | Inr v \<Rightarrow> f v)"

fun emap :: "('a \<Rightarrow> 'b result) \<Rightarrow> 'a list \<Rightarrow> 'b list result" where
  "emap f [] = Inr []"
| "emap f (x # xs) = ebind (f x) (\<lambda>y. ebind (emap f xs) (\<lambda>ys. Inr (y # ys)))"

text \<open>
  Indexing a sequence of length \<open>n\<close> with an integer: negative indices count from the
  end, anything outside \<open>-n .. n-1\<close> raises \<^verbatim>\<open>IndexError\<close>.
\<close>

definition seq_index :: "'a list \<Rightarrow> int \<Rightarrow> 'a result" where
  "seq_index xs i =
     (if 0 \<le> i \<and> i < int (length xs) then Inr (xs ! nat i)
      else if - int (length xs) \<le> i \<and> i < 0 then Inr (xs ! nat (int (length xs) + i))
      else Inl IndexError)"

text \<open>The subscript \<^verbatim>\<open>v[k]\<close>.\<close>

fun getitem :: "'f pyval \<Rightarrow> pykey \<Rightarrow> 'f pyval result" where
  "getitem (PDict kvs) (KStr k) =
     (case map_of kvs k of Some v \<Rightarrow> Inr v | None \<Rightarrow> Inl (KeyError (KStr k)))"
| "getitem (PDict kvs) (KInt i) = Inl (KeyError (KInt i))"
| "getitem (PList xs) (KInt i) = seq_index xs i"
| "getitem (PList xs) (KStr k) = Inl TypeError"
| "getitem (PStr s) (KInt i) = ebind (seq_index s i) (\<lambda>c. Inr (PStr [c]))"
| "getitem (PStr s) (KStr k) = Inl TypeError"
| "getitem _ _ = Inl TypeError"

text \<open>What a \<^verbatim>\<open>for\<close> loop iterates over: list elements, dict keys, characters.\<close>

fun py_iter :: "'f pyval \<Rightarrow> 'f pyval list result" where
  "py_iter (PList xs) = Inr xs"
| "py_iter (PDict kvs) = Inr (map (\<lambda>kv. PStr (fst kv)) kvs)"
| "py_iter (PStr s) = Inr (map (\<lambda>c. PStr [c]) s)"
| "py_iter _ = Inl TypeError"

section \<open>Series and data frames\<close>

text \<open>
  A pandas \<^verbatim>\<open>Series\<close> built from a dict is the list of its (label, value) pairs in
  insertion order. A frame is its column index and its rows in order; a
  \<^verbatim>\<open>GeoDataFrame\<close> also carries a coordinate reference system.
\<close>

type_synonym 'f series = "(string \<times> 'f pyval) list"

record 'f frame =
  columns :: "string list"
  rows :: "'f series list"
  crs :: "string option"

text \<open>The cell of a row under a label; a missing cell is NA.\<close>

definition cell :: "'f series \<Rightarrow> string \<Rightarrow> 'f pyval" where
  "cell r c = (case map_of r c of Some v \<Rightarrow> v | None \<Rightarrow> PNone)"

text \<open>
  \<^verbatim>\<open>pd.DataFrame(parsed)\<close> on a list of Series. Every Series that \<^verbatim>\<open>parse_ss_event\<close>
  returns has the same labels, so the column index is that of the first row; an empty
  list gives a frame with no columns at all.
\<close>

definition DataFrame :: "'f series list \<Rightarrow> 'f frame" where
  "DataFrame rs =
     \<lparr>columns = (case rs of [] \<Rightarrow> [] | r # _ \<Rightarrow> map fst r), rows = rs, crs = None\<rparr>"

text \<open>Labels in order of first appearance.\<close>

fun union_labels :: "string list \<Rightarrow> string list \<Rightarrow> string list" where
  "union_labels acc [] = acc"
| "union_labels acc (c # cs) =
     (if c \<in> set acc then union_labels acc cs else union_labels (acc @ [c]) cs)"

text \<open>
  \<^verbatim>\<open>pd.concat(frames)\<close>: rows one frame after the other, columns the union of the frames'
  columns. The frames met here have either no row or the same columns, so no cell is
  filled in.
\<close>

definition pd_concat :: "'f frame list \<Rightarrow> 'f frame" where
  "pd_concat fs =
     \<lparr>columns = union_labels [] (concat (map columns fs)),
      rows = concat (map rows fs),
      crs = None\<rparr>"

text \<open>\<^verbatim>\<open>df[c]\<close>: the column under label \<open>c\<close>, \<^verbatim>\<open>KeyError\<close> when the frame has no such column.\<close>

definition getcol :: "'f frame \<Rightarrow> string \<Rightarrow> 'f pyval list result" where
  "getcol df c =
     (if c \<in> set (columns df) then Inr (map (\<lambda>r. cell r c) (rows df))
      else Inl (KeyError (KStr c)))"

section \<open>Extraction from the police API\<close>

definition poly :: string where
  "poly = ''53.44389944710078, -3.01025390625:'' @ ''53.40461992848442,-2.9999542236328125:''
     @ ''53.366942995161345, -2.967681884765625:'' @ ''53.37800381298034, -2.912750244140625:''
     @ ''53.4230367215282,-2.9196166992187496:'' @ ''53.44676215918743,-2.973175048828125:''
     @ ''53.44489944710078,-3.012025390625''"

text \<open>
  \<^verbatim>\<open>parse_ss_event(cr)\<close>. The dict literal evaluates its values top to bottom, so the
  first failing subscript or conversion is the exception raised. \<open>py_float\<close> is Python's
  builtin \<^verbatim>\<open>float\<close>.
\<close>

definition parse_ss_event ::
  "('f pyval \<Rightarrow> 'f result) \<Rightarrow> 'f pyval \<Rightarrow> 'f series result" where
  "parse_ss_event py_float cr =
     ebind (getitem cr (KStr ''age_range'')) (\<lambda>age_range.
     ebind (getitem cr (KStr ''outcome'')) (\<lambda>outcome.
     ebind (getitem cr (KStr ''involved_person'')) (\<lambda>involved_person.
     ebind (getitem cr (KStr ''gender'')) (\<lambda>gender.
     ebind (getitem cr (KStr ''self_defined_ethnicity'')) (\<lambda>self_defined_ethnicity.
     ebind (ebind (ebind (getitem cr (KStr ''location''))
                    (\<lambda>l. getitem l (KStr ''street''))) (\<lambda>s. getitem s (KStr ''id''))) (\<lambda>street_id.
     ebind (ebind (ebind (getitem cr (KStr ''location''))
                    (\<lambda>l. getitem l (KStr ''longitude''))) py_float) (\<lambda>longitude.
     ebind (ebind (ebind (getitem cr (KStr ''location''))
                    (\<lambda>l. getitem l (KStr ''latitude''))) py_float) (\<lambda>latitude.
     ebind (getitem cr (KStr ''datetime'')) (\<lambda>date.
     ebind (getitem cr (KStr ''officer_defined_ethnicity'')) (\<lambda>officer_ethnicity.
     Inr [(''age_range'', age_range),
          (''outcome'', outcome),
          (''involed_person'', involved_person),
          (''gender'', gender),
          (''self_defined_ethnicity'', self_defined_ethnicity),
          (''street_id'', street_id),
          (''longitude'', PFloat longitude),
          (''latitude'', PFloat latitude),
          (''date'', date),
          (''officer_ethnicity'', officer_ethnicity)]))))))))))"

text \<open>\<^verbatim>\<open>parsing(stop_and_search)\<close>: parse every event in order, then build the frame.\<close>

definition parsing :: "('f pyval \<Rightarrow> 'f result) \<Rightarrow> 'f pyval \<Rightarrow> 'f frame result" where
  "parsing py_float stop_and_search =
     ebind (py_iter stop_and_search) (\<lambda>events.
     ebind (emap (parse_ss_event py_float) events) (\<lambda>parsed.
     Inr (DataFrame parsed)))"

text \<open>
  \<^verbatim>\<open>get_month_crime(month, year)\<close>. \<open>fetch\<close> is \<^verbatim>\<open>requests.get\<close> followed by
  \<^verbatim>\<open>json.loads\<close> of the body, which may raise.
\<close>

definition month_url :: "string \<Rightarrow> string \<Rightarrow> string" where
  "month_url month year =
     ''https://data.police.uk/api/stops-street?poly='' @ poly @ ''&date='' @ year @ ''-'' @ month"

definition get_month_crime ::
  "('f pyval \<Rightarrow> 'f result) \<Rightarrow> (string \<Rightarrow> 'f pyval result) \<Rightarrow> string \<Rightarrow> string \<Rightarrow> 'f frame result" where
  "get_month_crime py_float fetch month year =
     ebind (fetch (month_url month year)) (\<lambda>mcrimes. parsing py_float mcrimes)"

definition months :: "string list" where
  "months = [''01'', ''02'', ''03'', ''04'', ''05'', ''06'',
             ''07'', ''08'', ''09'', ''10'', ''11'', ''12'']"

text \<open>The twelve calls of the list literal run in order; then \<^verbatim>\<open>pd.concat\<close>.\<close>

definition yearly_crimes_20 ::
  "('f pyval \<Rightarrow> 'f result) \<Rightarrow> (string \<Rightarrow> 'f pyval result) \<Rightarrow> 'f frame result" where
  "yearly_crimes_20 py_float fetch =
     ebind (emap (\<lambda>m. get_month_crime py_float fetch m ''2020'') months) (\<lambda>fs.
     Inr (pd_concat fs))"

section \<open>Geo-tagging and subsets\<close>

text \<open>
  \<^verbatim>\<open>gpd.points_from_xy(x, y)\<close>: one point per position. Both columns were filled by
  \<^verbatim>\<open>float\<close> in \<^verbatim>\<open>parse_ss_event\<close>, so they hold floats and are taken as they are; a
  cell of another type cannot reach this place and is reported as \<^verbatim>\<open>TypeError\<close>.
\<close>

fun as_float64 :: "'f pyval \<Rightarrow> 'f result" where
  "as_float64 (PFloat x) = Inr x"
| "as_float64 _ = Inl TypeError"

definition points_from_xy :: "'f pyval list \<Rightarrow> 'f pyval list \<Rightarrow> 'f pyval list result" where
  "points_from_xy xs ys =
     (if length xs \<noteq> length ys then Inl ValueError
      else emap (\<lambda>xy. ebind (as_float64 (fst xy)) (\<lambda>x.
                      ebind (as_float64 (snd xy)) (\<lambda>y. Inr (PPoint x y)))) (zip xs ys))"

text \<open>
  \<^verbatim>\<open>gpd.GeoDataFrame(df, geometry=points, crs=...)\<close>: the points become the column
  \<^verbatim>\<open>geometry\<close>, row by row, and the frame is tagged with the reference system.
\<close>

definition GeoDataFrame :: "'f frame \<Rightarrow> 'f pyval list \<Rightarrow> string \<Rightarrow> 'f frame result" where
  "GeoDataFrame df geometry c =
     (if length geometry \<noteq> length (rows df) then Inl ValueError
      else Inr \<lparr>columns = union_labels (columns df) [''geometry''],
                rows = map (\<lambda>rg. AList.update ''geometry'' (snd rg) (fst rg)) (zip (rows df) geometry),
                crs = Some c\<rparr>)"

definition crimes_geodf_20 :: "'f frame \<Rightarrow> 'f frame result" where
  "crimes_geodf_20 yearly =
     ebind (getcol yearly ''longitude'') (\<lambda>xs.
     ebind (getcol yearly ''latitude'') (\<lambda>ys.
     ebind (points_from_xy xs ys) (\<lambda>points.
     GeoDataFrame yearly points ''EPSG:27700'')))"

text \<open>
  \<^verbatim>\<open>Series.str.contains(pat, na=False)\<close> on one cell. The patterns of the notebook
  (\<^verbatim>\<open>Black\<close>, \<^verbatim>\<open>White\<close>, \<^verbatim>\<open>18-24\<close>, \<^verbatim>\<open>Male\<close>, \<^verbatim>\<open>Arrest\<close>) have no regular-expression
  operator, so the search is for the pattern as a contiguous, case-sensitive substring.
  A cell that is not a string gives NA, which \<^verbatim>\<open>na=False\<close> turns into \<^verbatim>\<open>False\<close>. The
  columns filtered hold strings or \<^verbatim>\<open>None\<close>; pandas refuses \<^verbatim>\<open>.str\<close> on a column of
  numeric dtype, which is not modelled.
\<close>

fun contains_str :: "string \<Rightarrow> string \<Rightarrow> bool" where
  "contains_str pat [] = (pat = [])"
| "contains_str pat (c # cs) = (prefix pat (c # cs) \<or> contains_str pat cs)"

fun str_contains :: "string \<Rightarrow> 'f pyval \<Rightarrow> bool" where
  "str_contains pat (PStr s) = contains_str pat s"
| "str_contains pat _ = False"

text \<open>\<^verbatim>\<open>df[mask]\<close> with a boolean mask computed from \<open>df\<close> itself: the rows marked true.\<close>

definition mask_filter :: "'f frame \<Rightarrow> bool list \<Rightarrow> 'f frame" where
  "mask_filter df keep = df\<lparr>rows := map fst (filter snd (zip (rows df) keep))\<rparr>"

definition contains_filter :: "string \<Rightarrow> string \<Rightarrow> 'f frame \<Rightarrow> 'f frame result" where
  "contains_filter col pat df =
     ebind (getcol df col) (\<lambda>vs. Inr (mask_filter df (map (str_contains pat) vs)))"

definition black :: "'f frame \<Rightarrow> 'f frame result" where
  "black crimes = contains_filter ''self_defined_ethnicity'' ''Black'' crimes"

definition black_youth :: "'f frame \<Rightarrow> 'f frame result" where
  "black_youth b = contains_filter ''age_range'' ''18-24'' b"

section \<open>Ratios\<close>

text \<open>
  \<^verbatim>\<open>len(a) / len(b)\<close> on Python ints: \<^verbatim>\<open>ZeroDivisionError\<close> for a zero divisor, else the
  quotient rounded to binary64. \<open>rnd\<close> is that rounding, on the rationals.
\<close>

definition py_truediv :: "(rat \<Rightarrow> rat) \<Rightarrow> nat \<Rightarrow> nat \<Rightarrow> rat result" where
  "py_truediv rnd a b =
     (if b = 0 then Inl ZeroDivisionError else Inr (rnd (of_nat a / of_nat b)))"

text \<open>\<^verbatim>\<open>bk_percentage = (len(black) / len(crimes_geodf_20))\<close>\<close>

definition bk_percentage :: "(rat \<Rightarrow> rat) \<Rightarrow> 'f frame \<Rightarrow> 'f frame \<Rightarrow> rat result" where
  "bk_percentage rnd b crimes = py_truediv rnd (length (rows b)) (length (rows crimes))"

text \<open>\<^verbatim>\<open>(len(black_youth) / len(black)) * 100\<close>\<close>

definition black_youth_percentage :: "(rat \<Rightarrow> rat) \<Rightarrow> 'f frame \<Rightarrow> 'f frame \<Rightarrow> rat result" where
  "black_youth_percentage rnd youth b =
     ebind (py_truediv rnd (length (rows youth)) (length (rows b))) (\<lambda>q. Inr (rnd (q * 100)))"

section \<open>Isochrones\<close>

text \<open>Python's truth value of an object.\<close>

fun truthy :: "('f::zero) pyval \<Rightarrow> bool" where
  "truthy PNone = False"
| "truthy (PBool b) = b"
| "truthy (PInt i) = (i \<noteq> 0)"
| "truthy (PFloat x) = (x \<noteq> 0)"
| "truthy (PStr s) = (s \<noteq> [])"
| "truthy (PList xs) = (xs \<noteq> [])"
| "truthy (PDict kvs) = (kvs \<noteq> [])"
| "truthy (PPoint x y) = True"
| "truthy (PPolygon rings) = True"

text \<open>
  \<^verbatim>\<open>shapely.geometry.shape\<close> on a GeoJSON mapping, following shapely 2. Only the type
  \<^verbatim>\<open>Polygon\<close>, which the isochrone request asks for (\<^verbatim>\<open>polygons=true\<close>), is modelled;
  any other type name is reported as \<^verbatim>\<open>ValueError\<close>.

  A vertex is read with \<^verbatim>\<open>[float(c) for c in o]\<close>. A ring must have vertices of one
  dimension, 2 or 3; a ring whose last vertex differs from its first is closed by
  appending the first; a closed ring of fewer than four vertices is refused. Empty
  coordinates (\<^verbatim>\<open>None\<close>, or lists nested around nothing) give the empty polygon.
\<close>

definition lower_char :: "char \<Rightarrow> char" where
  "lower_char c =
     (let n = (of_char c :: int) in if 65 \<le> n \<and> n \<le> 90 then char_of (n + 32) else c)"

fun coords_empty :: "'f pyval \<Rightarrow> bool" where
  "coords_empty PNone = True"
| "coords_empty (PList xs) = (\<forall>x\<in>set xs. coords_empty x)"
| "coords_empty _ = False"

definition vertex :: "('f pyval \<Rightarrow> 'f result) \<Rightarrow> 'f pyval \<Rightarrow> 'f list result" where
  "vertex py_float pos = ebind (py_iter pos) (emap py_float)"

definition close_ring :: "'a list \<Rightarrow> 'a list" where
  "close_ring vs = (if vs \<noteq> [] \<and> hd vs \<noteq> last vs then vs @ [hd vs] else vs)"

definition LinearRing :: "('f pyval \<Rightarrow> 'f result) \<Rightarrow> 'f pyval \<Rightarrow> 'f list list result" where
  "LinearRing py_float coordinates =
     (if coordinates = PNone then Inr []
      else ebind (py_iter coordinates) (\<lambda>os.
           ebind (emap (vertex py_float) os) (\<lambda>vs.
             if vs = [] then Inr []
             else if \<not> (\<forall>v\<in>set vs. length v = length (hd vs)) then Inl ValueError
             else if length (hd vs) \<noteq> 2 \<and> length (hd vs) \<noteq> 3 then Inl ValueError
             else if length (close_ring vs) < 4 then Inl ValueError
             else Inr (close_ring vs))))"

definition Polygon ::
  "('f pyval \<Rightarrow> 'f result) \<Rightarrow> 'f pyval \<Rightarrow> 'f pyval list \<Rightarrow> 'f pyval result" where
  "Polygon py_float shell holes =
     ebind (LinearRing py_float shell) (\<lambda>s.
     ebind (emap (LinearRing py_float) holes) (\<lambda>hs.
     Inr (PPolygon (s # hs))))"

text \<open>
  \<^verbatim>\<open>shape(ob)\<close>: \<^verbatim>\<open>ob.get("type").lower()\<close> picks the geometry type, then
  \<^verbatim>\<open>Polygon(ob["coordinates"][0], ob["coordinates"][1:])\<close>. Coordinates that are not a
  list are reported as \<^verbatim>\<open>TypeError\<close>.
\<close>

definition shape :: "('f pyval \<Rightarrow> 'f result) \<Rightarrow> 'f pyval \<Rightarrow> 'f pyval result" where
  "shape py_float ob =
     (case ob of
        PDict kvs \<Rightarrow>
          (case map_of kvs ''type'' of
             Some (PStr t) \<Rightarrow>
               if map lower_char t \<noteq> ''polygon'' then Inl ValueError
               else (case map_of kvs ''coordinates'' of
                       None \<Rightarrow> Inl (KeyError (KStr ''coordinates''))
                     | Some c \<Rightarrow>
                         if coords_empty c then Inr (PPolygon [])
                         else (case c of
                                 PList (shell # holes) \<Rightarrow> Polygon py_float shell holes
                               | _ \<Rightarrow> Inl TypeError))
           | _ \<Rightarrow> Inl AttributeError)
      | _ \<Rightarrow> Inl AttributeError)"

text \<open>
  One row of \<^verbatim>\<open>GeoDataFrame.from_features\<close>: the geometry first (\<^verbatim>\<open>None\<close> for a
  falsy geometry member), then the feature's properties (\<^verbatim>\<open>row.update(properties)\<close>),
  so that a property named \<^verbatim>\<open>geometry\<close> takes the place of the geometry. A \<^verbatim>\<open>None\<close>
  properties member is read as no properties, as current geopandas does (older
  releases raise there); any other non-dict is reported as \<^verbatim>\<open>TypeError\<close>.
\<close>

definition feature_row :: "('f pyval \<Rightarrow> 'f result) \<Rightarrow> ('f::zero) pyval \<Rightarrow> 'f series result" where
  "feature_row py_float feature =
     ebind (getitem feature (KStr ''geometry'')) (\<lambda>g.
     ebind (if truthy g then shape py_float g else Inr PNone) (\<lambda>geom.
     ebind (getitem feature (KStr ''properties'')) (\<lambda>properties.
       case properties of
         PNone \<Rightarrow> Inr [(''geometry'', geom)]
       | PDict kvs \<Rightarrow> Inr (fold (\<lambda>kv. AList.update (fst kv) (snd kv)) kvs [(''geometry'', geom)])
       | _ \<Rightarrow> Inl TypeError)))"

definition from_features ::
  "('f pyval \<Rightarrow> 'f result) \<Rightarrow> ('f::zero) pyval list \<Rightarrow> string \<Rightarrow> 'f frame result" where
  "from_features py_float features c =
     ebind (emap (feature_row py_float) features) (\<lambda>rs.
     Inr \<lparr>columns = union_labels [] (concat (map (map fst) rs)), rows = rs, crs = Some c\<rparr>)"

text \<open>
  \<^verbatim>\<open>walk_5 = walk['features'][0]\<close> and \<^verbatim>\<open>walk_10 = walk['features'][1]\<close>, each then
  turned into a frame of its own.
\<close>

definition walk_5_feature :: "'f pyval \<Rightarrow> 'f pyval result" where
  "walk_5_feature walk = ebind (getitem walk (KStr ''features'')) (\<lambda>fs. getitem fs (KInt 0))"

definition walk_10_feature :: "'f pyval \<Rightarrow> 'f pyval result" where
  "walk_10_feature walk = ebind (getitem walk (KStr ''features'')) (\<lambda>fs. getitem fs (KInt 1))"

definition walk_5 :: "('f pyval \<Rightarrow> 'f result) \<Rightarrow> ('f::zero) pyval \<Rightarrow> 'f frame result" where
  "walk_5 py_float walk =
     ebind (walk_5_feature walk) (\<lambda>f. from_features py_float [f] ''EPSG:4326'')"

definition walk_10 :: "('f pyval \<Rightarrow> 'f result) \<Rightarrow> ('f::zero) pyval \<Rightarrow> 'f frame result" where
  "walk_10 py_float walk =
     ebind (walk_10_feature walk) (\<lambda>f. from_features py_float [f] ''EPSG:4326'')"







section \<open>Recorded data and fixtures\<close>

text \<open>
  A reading of \<^verbatim>\<open>float\<close> for the concrete runs below: the exact value of a plain
  decimal literal (optional minus sign, digits, optional point and digits), without the
  rounding to binary64. Python accepts more spellings (exponents, blanks, \<^verbatim>\<open>inf\<close>),
  which this reading rejects.
\<close>

definition digit_of :: "char \<Rightarrow> int option" where
  "digit_of c = (let n = (of_char c :: int) in if 48 \<le> n \<and> n \<le> 57 then Some (n - 48) else None)"

fun digits_val :: "int \<Rightarrow> string \<Rightarrow> int option" where
  "digits_val acc [] = Some acc"
| "digits_val acc (c # cs) =
     (case digit_of c of None \<Rightarrow> None | Some d \<Rightarrow> digits_val (10 * acc + d) cs)"

definition float_of_str :: "string \<Rightarrow> rat result" where
  "float_of_str s =
     (let neg = (s \<noteq> [] \<and> hd s = CHR ''-'');
          body = (if neg then tl s else s);
          ip = takeWhile (\<lambda>c. c \<noteq> CHR ''.'') body;
          fp = drop (Suc (length ip)) body
      in if ip = [] \<and> fp = [] then Inl ValueError
         else case digits_val 0 (ip @ fp) of
                None \<Rightarrow> Inl ValueError
              | Some n \<Rightarrow> Inr ((if neg then - 1 else 1) * of_int n / 10 ^ length fp))"

fun float_dec :: "rat pyval \<Rightarrow> rat result" where
  "float_dec (PStr s) = float_of_str s"
| "float_dec (PFloat x) = Inr x"
| "float_dec (PInt i) = Inr (of_int i)"
| "float_dec (PBool b) = Inr (if b then 1 else 0)"
| "float_dec _ = Inl TypeError"

text \<open>The first event of January 2020, as the notebook prints it (\<^verbatim>\<open>ss[0]\<close>).\<close>

definition ss0 :: "rat pyval" where
  "ss0 =
     PDict
       [(''age_range'', PStr ''over 34''),
        (''outcome'', PStr ''Arrest''),
        (''involved_person'', PBool True),
        (''self_defined_ethnicity'', PStr ''White - English/Welsh/Scottish/Northern Irish/British''),
        (''gender'', PStr ''Male''),
        (''legislation'', PStr ''Misuse of Drugs Act 1971 (section 23)''),
        (''outcome_linked_to_object_of_search'', PBool True),
        (''datetime'', PStr ''2020-01-06T10:11:23+00:00''),
        (''removal_of_more_than_outer_clothing'', PBool False),
        (''outcome_object'', PDict
          [(''id'', PStr ''bu-arrest''),
           (''name'', PStr ''Arrest'')]),
        (''location'', PDict
          [(''latitude'', PStr ''53.420561''),
           (''street'', PDict
             [(''id'', PInt 914481),
              (''name'', PStr ''On or near Tamar Close'')]),
           (''longitude'', PStr ''-2.961643'')]),
        (''operation'', PNone),
        (''officer_defined_ethnicity'', PStr ''White''),
        (''type'', PStr ''Person search''),
        (''operation_name'', PNone),
        (''object_of_search'', PStr ''Controlled drugs'')]"

text \<open>
  The isochrone response recorded in the notebook, numbers as printed; each ring is
  given by its (longitude, latitude) pairs.
\<close>

definition pos :: "rat \<Rightarrow> rat \<Rightarrow> rat pyval" where
  "pos x y = PList [PFloat x, PFloat y]"

definition recorded_ring_0 :: "(rat \<times> rat) list" where
  "recorded_ring_0 =
     [(- 2.978886, 53.409888),
      (- 2.975918, 53.408865),
      (- 2.974918, 53.409182),
      (- 2.973336, 53.408856),
      (- 2.972172, 53.407856),
      (- 2.971969, 53.406856),
      (- 2.97068, 53.405856),
      (- 2.97165, 53.404856),
      (- 2.971143, 53.403856),
      (- 2.972649, 53.402856),
      (- 2.972188, 53.401856),
      (- 2.973918, 53.400065),
      (- 2.975918, 53.399147),
      (- 2.977918, 53.399598),
      (- 2.983918, 53.39852),
      (- 2.986918, 53.398461),
      (- 2.989608, 53.399856),
      (- 2.98975, 53.401024),
      (- 2.990918, 53.400963),
      (- 2.992679, 53.401856),
      (- 2.992338, 53.402856),
      (- 2.993605, 53.404856),
      (- 2.99281, 53.406856),
      (- 2.990744, 53.408856),
      (- 2.988103, 53.410041),
      (- 2.984079, 53.410017),
      (- 2.982918, 53.410703),
      (- 2.978886, 53.409888)]"

definition recorded_feature_0_ring :: "rat pyval list" where
  "recorded_feature_0_ring = map (\<lambda>xy. pos (fst xy) (snd xy)) recorded_ring_0"

definition recorded_properties_0 :: "(string \<times> rat pyval) list" where
  "recorded_properties_0 =
     [(''fill'', PStr ''#04e813''),
      (''fillOpacity'', PFloat 0.33),
      (''fill-opacity'', PFloat 0.33),
      (''fillColor'', PStr ''#04e813''),
      (''color'', PStr ''#04e813''),
      (''contour'', PInt 10),
      (''opacity'', PFloat 0.33),
      (''metric'', PStr ''time'')]"

definition recorded_geometry_0 :: "rat pyval" where
  "recorded_geometry_0 =
     PDict [(''coordinates'', PList [PList recorded_feature_0_ring]), (''type'', PStr ''Polygon'')]"

definition recorded_feature_0 :: "rat pyval" where
  "recorded_feature_0 =
     PDict [(''properties'', PDict recorded_properties_0),
            (''geometry'', recorded_geometry_0),
            (''type'', PStr ''Feature'')]"

definition recorded_ring_1 :: "(rat \<times> rat) list" where
  "recorded_ring_1 =
     [(- 2.981696, 53.407078),
      (- 2.981197, 53.406577),
      (- 2.97991, 53.406848),
      (- 2.977072, 53.405856),
      (- 2.976778, 53.404856),
      (- 2.97777, 53.403856),
      (- 2.977666, 53.402604),
      (- 2.979805, 53.401856),
      (- 2.980918, 53.402198),
      (- 2.983918, 53.401447),
      (- 2.985918, 53.401583),
      (- 2.987925, 53.402856),
      (- 2.988279, 53.404856),
      (- 2.987275, 53.406213),
      (- 2.982918, 53.407705),
      (- 2.981696, 53.407078)]"

definition recorded_feature_1_ring :: "rat pyval list" where
  "recorded_feature_1_ring = map (\<lambda>xy. pos (fst xy) (snd xy)) recorded_ring_1"

definition recorded_properties_1 :: "(string \<times> rat pyval) list" where
  "recorded_properties_1 =
     [(''fill'', PStr ''#6706ce''),
      (''fillOpacity'', PFloat 0.33),
      (''fill-opacity'', PFloat 0.33),
      (''fillColor'', PStr ''#6706ce''),
      (''color'', PStr ''#6706ce''),
      (''contour'', PInt 5),
      (''opacity'', PFloat 0.33),
      (''metric'', PStr ''time'')]"

definition recorded_geometry_1 :: "rat pyval" where
  "recorded_geometry_1 =
     PDict [(''coordinates'', PList [PList recorded_feature_1_ring]), (''type'', PStr ''Polygon'')]"

definition recorded_feature_1 :: "rat pyval" where
  "recorded_feature_1 =
     PDict [(''properties'', PDict recorded_properties_1),
            (''geometry'', recorded_geometry_1),
            (''type'', PStr ''Feature'')]"

definition recorded_walk :: "rat pyval" where
  "recorded_walk =
     PDict [(''features'', PList [recorded_feature_0, recorded_feature_1]),
            (''type'', PStr ''FeatureCollection'')]"

text \<open>
  A fake monthly payload of 100 events: five Black and aged 18-24, five Black and older,
  ninety White. \<open>serve month payload\<close> is a fetcher that answers the query for that
  month of 2020 with the payload and every other query with an empty array.
\<close>

definition fake_event :: "string \<Rightarrow> string \<Rightarrow> rat pyval" where
  "fake_event ethnicity age =
     PDict
       [(''age_range'', PStr age),
        (''outcome'', PStr ''A no further action disposal''),
        (''involved_person'', PBool True),
        (''self_defined_ethnicity'', PStr ethnicity),
        (''gender'', PStr ''Male''),
        (''datetime'', PStr ''2020-03-01T12:00:00+00:00''),
        (''location'', PDict
          [(''latitude'', PStr ''53.404856''),
           (''street'', PDict [(''id'', PInt 914481), (''name'', PStr ''On or near Tamar Close'')]),
           (''longitude'', PStr ''-2.982918'')]),
        (''officer_defined_ethnicity'', PStr ''White'')]"

definition fake_payload :: "rat pyval list" where
  "fake_payload =
     replicate 5 (fake_event ''Black/African/Caribbean/Black British - African'' ''18-24'')
     @ replicate 5 (fake_event ''Black/African/Caribbean/Black British - Caribbean'' ''over 34'')
     @ replicate 90 (fake_event ''White - English/Welsh/Scottish/Northern Irish/British'' ''25-34'')"

definition serve :: "string \<Rightarrow> 'f pyval list \<Rightarrow> string \<Rightarrow> 'f pyval result" where
  "serve month payload url =
     (if url = month_url month ''2020'' then Inr (PList payload) else Inr (PList []))"

text \<open>A fetcher with one event in January and two in December.\<close>

definition winter_fetch :: "string \<Rightarrow> rat pyval result" where
  "winter_fetch url =
     (if url = month_url ''01'' ''2020'' then Inr (PList [ss0])
      else if url = month_url ''12'' ''2020''
        then Inr (PList [fake_event ''Black/African/Caribbean/Black British - African'' ''18-24'', ss0])
      else Inr (PList []))"

text \<open>An event like \<open>ss0\<close> whose location has no latitude.\<close>

definition ss_no_latitude :: "rat pyval" where
  "ss_no_latitude =
     PDict
       [(''age_range'', PStr ''18-24''),
        (''outcome'', PStr ''Arrest''),
        (''involved_person'', PBool True),
        (''self_defined_ethnicity'', PStr ''White - English/Welsh/Scottish/Northern Irish/British''),
        (''gender'', PStr ''Male''),
        (''datetime'', PStr ''2020-01-06T10:11:23+00:00''),
        (''location'', PDict
          [(''street'', PDict [(''id'', PInt 914481), (''name'', PStr ''On or near Tamar Close'')]),
           (''longitude'', PStr ''-2.961643'')]),
        (''officer_defined_ethnicity'', PStr ''White'')]"

text \<open>Whether a raw event has a string under \<open>key\<close> with \<open>pat\<close> somewhere inside it.\<close>

definition raw_contains :: "string \<Rightarrow> string \<Rightarrow> 'f pyval \<Rightarrow> bool" where
  "raw_contains key pat cr =
     (case getitem cr (KStr key) of Inr (PStr s) \<Rightarrow> sublist pat s | _ \<Rightarrow> False)"

text \<open>
  The subscripts that \<^verbatim>\<open>parse_ss_event\<close> evaluates on an event; the event lacks a
  required key when one of them raises.
\<close>

definition required_lookups :: "'f pyval \<Rightarrow> 'f pyval result list" where
  "required_lookups cr =
     [getitem cr (KStr ''age_range''),
      getitem cr (KStr ''outcome''),
      getitem cr (KStr ''involved_person''),
      getitem cr (KStr ''gender''),
      getitem cr (KStr ''self_defined_ethnicity''),
      getitem cr (KStr ''location''),
      ebind (getitem cr (KStr ''location'')) (\<lambda>l. getitem l (KStr ''street'')),
      ebind (ebind (getitem cr (KStr ''location'')) (\<lambda>l. getitem l (KStr ''street'')))
            (\<lambda>s. getitem s (KStr ''id'')),
      ebind (getitem cr (KStr ''location'')) (\<lambda>l. getitem l (KStr ''longitude'')),
      ebind (getitem cr (KStr ''location'')) (\<lambda>l. getitem l (KStr ''latitude'')),
      getitem cr (KStr ''datetime''),
      getitem cr (KStr ''officer_defined_ethnicity'')]"

definition lacks_required_key :: "'f pyval \<Rightarrow> bool" where
  "lacks_required_key cr = list_ex isl (required_lookups cr)"

text \<open>An event like \<open>ss0\<close> whose street has no id.\<close>

definition ss_no_street_id :: "rat pyval" where
  "ss_no_street_id =
     PDict
       [(''age_range'', PStr ''18-24''),
        (''outcome'', PStr ''Arrest''),
        (''involved_person'', PBool True),
        (''self_defined_ethnicity'', PStr ''White - English/Welsh/Scottish/Northern Irish/British''),
        (''gender'', PStr ''Male''),
        (''datetime'', PStr ''2020-01-06T10:11:23+00:00''),
        (''location'', PDict
          [(''latitude'', PStr ''53.420561''),
           (''street'', PDict [(''name'', PStr ''On or near Tamar Close'')]),
           (''longitude'', PStr ''-2.961643'')]),
        (''officer_defined_ethnicity'', PStr ''White'')]"







text \<open>
  What every Series returned by \<^verbatim>\<open>parse_ss_event\<close> looks like: the ten labels in
  order, and floats under \<^verbatim>\<open>longitude\<close> and \<^verbatim>\<open>latitude\<close>.
\<close>

fun is_float :: "'f pyval \<Rightarrow> bool" where
  "is_float (PFloat x) = True"
| "is_float _ = False"

definition ss_columns :: "string list" where
  "ss_columns = [''age_range'', ''outcome'', ''involed_person'', ''gender'',
                 ''self_defined_ethnicity'', ''street_id'', ''longitude'', ''latitude'',
                 ''date'', ''officer_ethnicity'']"

definition normalized :: "'f series \<Rightarrow> bool" where
  "normalized r =
     (map fst r = ss_columns \<and> is_float (cell r ''longitude'') \<and> is_float (cell r ''latitude''))"

text \<open>A table of two normalized events, the first of them Black, and its Black subset.\<close>

definition sample_table :: "rat frame" where
  "sample_table =
     projr (parsing float_dec
       (PList [fake_event ''Black/African/Caribbean/Black British - African'' ''18-24'', ss0]))"

definition sample_black :: "rat frame" where
  "sample_black = projr (black sample_table)"

section \<open>Exceptions in sequence\<close>

lemma ebind_Inr [simp]: "ebind (Inr v) f = f v"
  by (simp add: ebind_def)

lemma ebind_Inl [simp]: "ebind (Inl e) f = Inl e"
  by (simp add: ebind_def)

lemma ebind_eq_Inr: "ebind m f = Inr y \<longleftrightarrow> (\<exists>v. m = Inr v \<and> f v = Inr y)"
  by (cases m) simp_all

lemma ebind_eq_Inl: "ebind m f = Inl e \<longleftrightarrow> m = Inl e \<or> (\<exists>v. m = Inr v \<and> f v = Inl e)"
  by (cases m) simp_all

lemma emap_eq_Inr: "emap f xs = Inr ys \<longleftrightarrow> list_all2 (\<lambda>x y. f x = Inr y) xs ys"
proof (induction xs arbitrary: ys)
  case Nil
  show ?case by auto
next
  case (Cons x xs)
  show ?case
    by (cases ys) (auto simp: ebind_eq_Inr Cons.IH)
qed

lemma emap_total:
  assumes "\<forall>x\<in>set xs. \<exists>y. f x = Inr y"
  shows "\<exists>ys. emap f xs = Inr ys"
  using assms by (induction xs) auto

lemma emap_first_failure:
  assumes "i < length xs" and "f (xs ! i) = Inl e" and "\<forall>j<i. \<exists>y. f (xs ! j) = Inr y"
  shows "emap f xs = Inl e"
  using assms
proof (induction xs arbitrary: i)
  case Nil
  then show ?case by simp
next
  case (Cons x xs)
  show ?case
  proof (cases i)
    case 0
    with Cons.prems show ?thesis by simp
  next
    case (Suc k)
    from Cons.prems(3) Suc obtain y where y: "f x = Inr y" by fastforce
    have "\<forall>j<k. \<exists>y. f (xs ! j) = Inr y"
      using Cons.prems(3) Suc by fastforce
    with Cons.IH [of k] Cons.prems(1,2) Suc have "emap f xs = Inl e" by simp
    with y show ?thesis by simp
  qed
qed

lemma emap_fails:
  assumes "x \<in> set xs" and "f x = Inl e"
  shows "\<exists>e'. emap f xs = Inl e'"
  using assms
proof (induction xs)
  case Nil
  then show ?case by simp
next
  case (Cons a xs)
  show ?case
  proof (cases "f a")
    case (Inl e0)
    then show ?thesis by simp
  next
    case (Inr y)
    with Cons show ?thesis by (cases "x = a") (auto simp: ebind_eq_Inl)
  qed
qed

lemma parse_ss_event_Inr:
  assumes "parse_ss_event pf cr = Inr r"
  shows "\<exists>a b c d e f x y g h.
           r = [(''age_range'', a), (''outcome'', b), (''involed_person'', c), (''gender'', d),
                (''self_defined_ethnicity'', e), (''street_id'', f), (''longitude'', PFloat x),
                (''latitude'', PFloat y), (''date'', g), (''officer_ethnicity'', h)]
           \<and> getitem cr (KStr ''age_range'') = Inr a
           \<and> getitem cr (KStr ''outcome'') = Inr b
           \<and> getitem cr (KStr ''involved_person'') = Inr c
           \<and> getitem cr (KStr ''gender'') = Inr d
           \<and> getitem cr (KStr ''self_defined_ethnicity'') = Inr e
           \<and> getitem cr (KStr ''datetime'') = Inr g
           \<and> getitem cr (KStr ''officer_defined_ethnicity'') = Inr h"
  using assms unfolding parse_ss_event_def ebind_eq_Inr by blast

section \<open>The monthly tables and the annual table\<close>

lemma parsing_PList:
  "parsing pf (PList events) = Inr t \<longleftrightarrow>
     (\<exists>rs. list_all2 (\<lambda>cr r. parse_ss_event pf cr = Inr r) events rs \<and> t = DataFrame rs)"
  by (auto simp: parsing_def ebind_eq_Inr emap_eq_Inr)

lemma rows_DataFrame [simp]: "rows (DataFrame rs) = rs"
  by (simp add: DataFrame_def)

lemma rows_pd_concat [simp]: "rows (pd_concat fs) = concat (map rows fs)"
  by (simp add: pd_concat_def)

lemma set_union_labels [simp]: "set (union_labels acc cs) = set acc \<union> set cs"
  by (induction acc cs rule: union_labels.induct) auto

lemma month_url_inject [simp]: "month_url m y = month_url m' y \<longleftrightarrow> m = m'"
  by (simp add: month_url_def)

text \<open>
  C1. The annual table is the twelve monthly tables one after the other, January first,
  each with its rows in their order; its length is the sum of the twelve lengths, and
  twelve empty monthly tables give an empty annual table.
\<close>

theorem yearly_crimes_20_concat:
  assumes "get_month_crime pf fetch ''01'' ''2020'' = Inr t1"
    and "get_month_crime pf fetch ''02'' ''2020'' = Inr t2"
    and "get_month_crime pf fetch ''03'' ''2020'' = Inr t3"
    and "get_month_crime pf fetch ''04'' ''2020'' = Inr t4"
    and "get_month_crime pf fetch ''05'' ''2020'' = Inr t5"
    and "get_month_crime pf fetch ''06'' ''2020'' = Inr t6"
    and "get_month_crime pf fetch ''07'' ''2020'' = Inr t7"
    and "get_month_crime pf fetch ''08'' ''2020'' = Inr t8"
    and "get_month_crime pf fetch ''09'' ''2020'' = Inr t9"
    and "get_month_crime pf fetch ''10'' ''2020'' = Inr t10"
    and "get_month_crime pf fetch ''11'' ''2020'' = Inr t11"
    and "get_month_crime pf fetch ''12'' ''2020'' = Inr t12"
  shows "\<exists>y. yearly_crimes_20 pf fetch = Inr y
           \<and> rows y = rows t1 @ rows t2 @ rows t3 @ rows t4 @ rows t5 @ rows t6
                      @ rows t7 @ rows t8 @ rows t9 @ rows t10 @ rows t11 @ rows t12
           \<and> length (rows y) =
               length (rows t1) + length (rows t2) + length (rows t3) + length (rows t4)
               + length (rows t5) + length (rows t6) + length (rows t7) + length (rows t8)
               + length (rows t9) + length (rows t10) + length (rows t11) + length (rows t12)
           \<and> (rows t1 = [] \<and> rows t2 = [] \<and> rows t3 = [] \<and> rows t4 = [] \<and> rows t5 = []
                \<and> rows t6 = [] \<and> rows t7 = [] \<and> rows t8 = [] \<and> rows t9 = []
                \<and> rows t10 = [] \<and> rows t11 = [] \<and> rows t12 = [] \<longrightarrow> rows y = [])"
proof -
  have "yearly_crimes_20 pf fetch =
          Inr (pd_concat [t1, t2, t3, t4, t5, t6, t7, t8, t9, t10, t11, t12])"
    unfolding yearly_crimes_20_def months_def by (simp add: assms)
  then show ?thesis by simp
qed

lemma winter_january:
  "get_month_crime float_dec winter_fetch ''01'' ''2020'' =
     Inr (DataFrame [projr (parse_ss_event float_dec ss0)])"
  by code_simp

lemma winter_december:
  "get_month_crime float_dec winter_fetch ''12'' ''2020'' =
     Inr (DataFrame
       [projr (parse_ss_event float_dec
          (fake_event ''Black/African/Caribbean/Black British - African'' ''18-24'')),
        projr (parse_ss_event float_dec ss0)])"
  by code_simp

lemma winter_other:
  "m \<in> {''02'', ''03'', ''04'', ''05'', ''06'', ''07'', ''08'', ''09'', ''10'', ''11''}
     \<Longrightarrow> get_month_crime float_dec winter_fetch m ''2020'' = Inr (DataFrame [])"
  by (auto simp: get_month_crime_def winter_fetch_def parsing_def)

theorem yearly_crimes_20_concat_witness:
  "\<exists>y. yearly_crimes_20 float_dec winter_fetch = Inr y
     \<and> rows y = [projr (parse_ss_event float_dec ss0),
                 projr (parse_ss_event float_dec
                   (fake_event ''Black/African/Caribbean/Black British - African'' ''18-24'')),
                 projr (parse_ss_event float_dec ss0)]
     \<and> length (rows y) = 3"
  using yearly_crimes_20_concat [OF winter_january winter_other winter_other winter_other
      winter_other winter_other winter_other winter_other winter_other winter_other
      winter_other winter_december]
  by (simp add: numeral_3_eq_3)


section \<open>The normalizer\<close>

lemma parse_ss_event_labels:
  assumes "parse_ss_event pf cr = Inr r"
  shows "map fst r = [''age_range'', ''outcome'', ''involed_person'', ''gender'',
                      ''self_defined_ethnicity'', ''street_id'', ''longitude'', ''latitude'',
                      ''date'', ''officer_ethnicity'']"
  using parse_ss_event_Inr [OF assms] by auto

text \<open>
  C2. The notebook's own sample event is accepted, and the record built from it has ten
  fields; the third is labelled \<^verbatim>\<open>involed_person\<close>, and no field is labelled
  \<^verbatim>\<open>involved_person\<close>.
\<close>

theorem parse_ss_event_ss0_labels:
  "parse_ss_event float_dec ss0 =
     Inr [(''age_range'', PStr ''over 34''),
          (''outcome'', PStr ''Arrest''),
          (''involed_person'', PBool True),
          (''gender'', PStr ''Male''),
          (''self_defined_ethnicity'', PStr ''White - English/Welsh/Scottish/Northern Irish/British''),
          (''street_id'', PInt 914481),
          (''longitude'', PFloat (- 2.961643)),
          (''latitude'', PFloat 53.420561),
          (''date'', PStr ''2020-01-06T10:11:23+00:00''),
          (''officer_ethnicity'', PStr ''White'')]
   \<and> ''involved_person'' \<notin> fst ` set (projr (parse_ss_event float_dec ss0))"
  by code_simp

text \<open>
  C3 as the claim states it fails: a batch of three events whose second has no latitude
  gives no table at all, only the \<^verbatim>\<open>KeyError\<close> of that event.
\<close>

theorem parsing_missing_latitude_counterexample:
  "parsing float_dec (PList [ss0, ss_no_latitude, ss0]) = Inl (KeyError (KStr ''latitude''))
   \<and> get_month_crime float_dec (serve ''01'' [ss0, ss_no_latitude, ss0]) ''01'' ''2020''
       = Inl (KeyError (KStr ''latitude''))
   \<and> yearly_crimes_20 float_dec (serve ''01'' [ss0, ss_no_latitude, ss0])
       = Inl (KeyError (KStr ''latitude''))"
  by code_simp

lemma parse_ss_event_lookups:
  assumes "parse_ss_event pf cr = Inr r"
  shows "\<not> lacks_required_key cr"
proof -
  from assms have "\<exists>a b c d e l1 s f l2 lo l3 la g h.
      getitem cr (KStr ''age_range'') = Inr a \<and> getitem cr (KStr ''outcome'') = Inr b
    \<and> getitem cr (KStr ''involved_person'') = Inr c \<and> getitem cr (KStr ''gender'') = Inr d
    \<and> getitem cr (KStr ''self_defined_ethnicity'') = Inr e
    \<and> getitem cr (KStr ''location'') = Inr l1 \<and> getitem l1 (KStr ''street'') = Inr s
    \<and> getitem s (KStr ''id'') = Inr f
    \<and> getitem cr (KStr ''location'') = Inr l2 \<and> getitem l2 (KStr ''longitude'') = Inr lo
    \<and> getitem cr (KStr ''location'') = Inr l3 \<and> getitem l3 (KStr ''latitude'') = Inr la
    \<and> getitem cr (KStr ''datetime'') = Inr g
    \<and> getitem cr (KStr ''officer_defined_ethnicity'') = Inr h"
    unfolding parse_ss_event_def ebind_eq_Inr by blast
  then obtain a b c d e l1 s f l2 lo l3 la g h where
      "getitem cr (KStr ''age_range'') = Inr a" "getitem cr (KStr ''outcome'') = Inr b"
      "getitem cr (KStr ''involved_person'') = Inr c" "getitem cr (KStr ''gender'') = Inr d"
      "getitem cr (KStr ''self_defined_ethnicity'') = Inr e"
      "getitem cr (KStr ''location'') = Inr l1" "getitem l1 (KStr ''street'') = Inr s"
      "getitem s (KStr ''id'') = Inr f"
      "getitem cr (KStr ''location'') = Inr l2" "getitem l2 (KStr ''longitude'') = Inr lo"
      "getitem cr (KStr ''location'') = Inr l3" "getitem l3 (KStr ''latitude'') = Inr la"
      "getitem cr (KStr ''datetime'') = Inr g"
      "getitem cr (KStr ''officer_defined_ethnicity'') = Inr h"
    by blast
  then show ?thesis
    by (auto simp: lacks_required_key_def required_lookups_def)
qed

lemma lacks_required_key_rejected:
  assumes "lacks_required_key cr"
  shows "\<exists>e. parse_ss_event pf cr = Inl e"
  using assms parse_ss_event_lookups [of pf cr] by (cases "parse_ss_event pf cr") auto

lemma yearly_crimes_20_month_fails:
  assumes "m \<in> set months" and "get_month_crime pf fetch m ''2020'' = Inl e"
  shows "\<exists>e'. yearly_crimes_20 pf fetch = Inl e'"
proof -
  from emap_fails [of m months "\<lambda>m. get_month_crime pf fetch m ''2020''" e] assms
  obtain e' where "emap (\<lambda>m. get_month_crime pf fetch m ''2020'') months = Inl e'" by blast
  then show ?thesis by (simp add: yearly_crimes_20_def)
qed

text \<open>
  C3, amended. An event that lacks a key the normalizer reads (\<^verbatim>\<open>location.latitude\<close>,
  \<^verbatim>\<open>location.street.id\<close> or any other of its subscripts) is rejected by the
  normalizer, which raises. A batch that holds such an event is not normalized:
  \<^verbatim>\<open>parsing\<close> raises, so does the month's \<^verbatim>\<open>get_month_crime\<close>, and so does
  \<^verbatim>\<open>yearly_crimes_20\<close>; no table is built and nothing is counted. When the events
  before it are accepted, the exception raised for the batch and for the month is the
  one the normalizer raised on that event.
\<close>

theorem rejected_event_stops_pipeline:
  assumes "i < length events"
    and "lacks_required_key (events ! i)"
    and "m \<in> set months"
    and "fetch (month_url m ''2020'') = Inr (PList events)"
  shows "(\<exists>e. parse_ss_event pf (events ! i) = Inl e)
       \<and> (\<exists>e. parsing pf (PList events) = Inl e)
       \<and> (\<exists>e. get_month_crime pf fetch m ''2020'' = Inl e)
       \<and> (\<exists>e. yearly_crimes_20 pf fetch = Inl e)
       \<and> (\<forall>e. parse_ss_event pf (events ! i) = Inl e
             \<longrightarrow> (\<forall>j<i. \<exists>r. parse_ss_event pf (events ! j) = Inr r)
             \<longrightarrow> parsing pf (PList events) = Inl e
                 \<and> get_month_crime pf fetch m ''2020'' = Inl e)"
proof -
  from lacks_required_key_rejected [OF assms(2)] obtain e0
    where e0: "parse_ss_event pf (events ! i) = Inl e0" by blast
  from assms(1) have "events ! i \<in> set events" by simp
  from emap_fails [of "events ! i" events "parse_ss_event pf" e0] this e0 obtain e1
    where "emap (parse_ss_event pf) events = Inl e1" by blast
  then have p: "parsing pf (PList events) = Inl e1"
    by (simp add: parsing_def)
  then have g: "get_month_crime pf fetch m ''2020'' = Inl e1"
    by (simp add: get_month_crime_def assms(4))
  from yearly_crimes_20_month_fails [OF assms(3) g] obtain e2
    where y: "yearly_crimes_20 pf fetch = Inl e2" by blast
  have first: "parsing pf (PList events) = Inl e \<and> get_month_crime pf fetch m ''2020'' = Inl e"
    if "parse_ss_event pf (events ! i) = Inl e"
      and "\<forall>j<i. \<exists>r. parse_ss_event pf (events ! j) = Inr r" for e
  proof -
    from emap_first_failure [of i events "parse_ss_event pf" e] assms(1) that
    have "parsing pf (PList events) = Inl e" by (simp add: parsing_def)
    then show ?thesis by (simp add: get_month_crime_def assms(4))
  qed
  from e0 p g y first show ?thesis by blast
qed

theorem rejected_event_stops_pipeline_witness:
  "parsing float_dec (PList [ss0, ss_no_street_id, ss0]) = Inl (KeyError (KStr ''id''))
   \<and> get_month_crime float_dec (serve ''01'' [ss0, ss_no_street_id, ss0]) ''01'' ''2020''
        = Inl (KeyError (KStr ''id''))
   \<and> (\<exists>e. yearly_crimes_20 float_dec (serve ''01'' [ss0, ss_no_street_id, ss0]) = Inl e)"
proof -
  have a: "(1::nat) < length [ss0, ss_no_street_id, ss0]" by simp
  have l: "lacks_required_key ([ss0, ss_no_street_id, ss0] ! 1)" by code_simp
  have b: "parse_ss_event float_dec ([ss0, ss_no_street_id, ss0] ! 1) = Inl (KeyError (KStr ''id''))"
    by code_simp
  have p0: "parse_ss_event float_dec ss0 = Inr (projr (parse_ss_event float_dec ss0))"
    by code_simp
  have c: "\<forall>j<1::nat. \<exists>r. parse_ss_event float_dec ([ss0, ss_no_street_id, ss0] ! j) = Inr r"
  proof (intro allI impI)
    fix j :: nat
    assume "j < 1"
    then have "[ss0, ss_no_street_id, ss0] ! j = ss0" by simp
    with p0 show "\<exists>r. parse_ss_event float_dec ([ss0, ss_no_street_id, ss0] ! j) = Inr r"
      by metis
  qed
  have d: "''01'' \<in> set months" by (simp add: months_def)
  have f: "serve ''01'' [ss0, ss_no_street_id, ss0] (month_url ''01'' ''2020'')
             = Inr (PList [ss0, ss_no_street_id, ss0])"
    by (simp add: serve_def)
  from rejected_event_stops_pipeline
         [of 1 "[ss0, ss_no_street_id, ss0]" "''01''" "serve ''01'' [ss0, ss_no_street_id, ss0]"
             float_dec, OF a l d f] b c
  show ?thesis by blast
qed

section \<open>The coordinates of a normalized record\<close>





section \<open>Substring filters\<close>

lemma contains_str_sublist: "contains_str pat s \<longleftrightarrow> sublist pat s"
  by (induction s) (auto simp: sublist_Cons_right)

lemma str_contains_iff: "str_contains pat v \<longleftrightarrow> (\<exists>s. v = PStr s \<and> sublist pat s)"
  by (cases v) (simp_all add: contains_str_sublist)

lemma filter_by_mask: "map fst (filter snd (zip xs (map q xs))) = filter q xs"
  by (induction xs) simp_all

lemma contains_filter_eq:
  "contains_filter col pat df =
     (if col \<in> set (columns df)
      then Inr (df\<lparr>rows := filter (\<lambda>r. str_contains pat (cell r col)) (rows df)\<rparr>)
      else Inl (KeyError (KStr col)))"
proof -
  have "map fst (filter snd (zip (rows df) (map (str_contains pat) (map (\<lambda>r. cell r col) (rows df)))))
        = filter (\<lambda>r. str_contains pat (cell r col)) (rows df)"
    using filter_by_mask [of "rows df" "\<lambda>r. str_contains pat (cell r col)"]
    by (simp add: comp_def)
  then show ?thesis
    by (simp add: contains_filter_def getcol_def mask_filter_def)
qed

lemma contains_filter_subseq:
  assumes "contains_filter col pat df = Inr s"
  shows "subseq (rows s) (rows df)"
  using assms by (auto simp: contains_filter_eq split: if_splits)

text \<open>
  C6. Filtering for \<^verbatim>\<open>Black\<close> a table already filtered for \<^verbatim>\<open>Black\<close> gives the same
  table back; the filter keeps, in order, exactly the rows whose
  \<^verbatim>\<open>self_defined_ethnicity\<close> is a string with \<^verbatim>\<open>Black\<close> somewhere inside it, and leaves
  columns and reference system alone.
\<close>

theorem black_idempotent:
  assumes "black t = Inr b"
  shows "black b = Inr b
       \<and> rows b = filter (\<lambda>r. \<exists>s. cell r ''self_defined_ethnicity'' = PStr s \<and> sublist ''Black'' s)
                    (rows t)
       \<and> columns b = columns t \<and> crs b = crs t"
proof -
  let ?P = "\<lambda>r. str_contains ''Black'' (cell r ''self_defined_ethnicity'')"
  from assms have c: "''self_defined_ethnicity'' \<in> set (columns t)"
    and b: "b = t\<lparr>rows := filter ?P (rows t)\<rparr>"
    by (auto simp: black_def contains_filter_eq split: if_splits)
  have "black b = Inr (b\<lparr>rows := filter ?P (rows b)\<rparr>)"
    using c b by (simp add: black_def contains_filter_eq)
  also have "b\<lparr>rows := filter ?P (rows b)\<rparr> = b"
    by (simp add: b)
  finally have "black b = Inr b" .
  moreover have "rows b = filter (\<lambda>r. \<exists>s. cell r ''self_defined_ethnicity'' = PStr s \<and> sublist ''Black'' s)
                    (rows t)"
    by (simp add: b str_contains_iff)
  ultimately show ?thesis by (simp add: b)
qed

lemma sample_black_eq: "black sample_table = Inr sample_black"
  by code_simp

theorem black_idempotent_witness:
  "black sample_table = Inr sample_black \<and> black sample_black = Inr sample_black
   \<and> length (rows sample_table) = 2 \<and> length (rows sample_black) = 1"
proof -
  have "length (rows sample_table) = 2" by code_simp
  moreover have "length (rows sample_black) = 1" by code_simp
  ultimately show ?thesis
    using black_idempotent [OF sample_black_eq] sample_black_eq by simp
qed

section \<open>Ratios of table lengths\<close>

text \<open>
  C7. For a subset \<open>s\<close> of a table \<open>t\<close> (some of its rows, in order): when \<open>t\<close> has a row,
  the fraction of lengths lies between 0 and 1 and the percentage between 0 and 100; when
  \<open>t\<close> has none, both computations raise \<^verbatim>\<open>ZeroDivisionError\<close>. The rounding of a
  quotient to a float is monotone and leaves 0, 1 and 100 as they are.
\<close>

theorem percentage_bounds:
  assumes "subseq (rows s) (rows t)"
    and "\<forall>x y. x \<le> y \<longrightarrow> rnd x \<le> rnd y"
    and "rnd 0 = 0" and "rnd 1 = 1" and "rnd 100 = 100"
  shows "(rows t \<noteq> [] \<longrightarrow>
            (\<exists>q. bk_percentage rnd s t = Inr q \<and> 0 \<le> q \<and> q \<le> 1)
          \<and> (\<exists>p. black_youth_percentage rnd s t = Inr p \<and> 0 \<le> p \<and> p \<le> 100))
       \<and> (rows t = [] \<longrightarrow>
            bk_percentage rnd s t = Inl ZeroDivisionError
          \<and> black_youth_percentage rnd s t = Inl ZeroDivisionError)"
proof -
  let ?a = "length (rows s)" and ?b = "length (rows t)"
  let ?q = "(of_nat ?a / of_nat ?b) :: rat"
  have le: "?a \<le> ?b" using assms(1) by (rule list_emb_length)
  have zero: "rows t = [] \<Longrightarrow> bk_percentage rnd s t = Inl ZeroDivisionError
                \<and> black_youth_percentage rnd s t = Inl ZeroDivisionError"
    by (simp add: bk_percentage_def black_youth_percentage_def py_truediv_def)
  have pos: "(\<exists>q. bk_percentage rnd s t = Inr q \<and> 0 \<le> q \<and> q \<le> 1)
          \<and> (\<exists>p. black_youth_percentage rnd s t = Inr p \<and> 0 \<le> p \<and> p \<le> 100)"
    if ne: "rows t \<noteq> []"
  proof -
    from ne have b: "0 < ?b" by simp
    have q0: "0 \<le> ?q" by simp
    have q1: "?q \<le> 1" using le b by simp
    have r0: "0 \<le> rnd ?q" using assms(2,3) q0 by metis
    have r1: "rnd ?q \<le> 1" using assms(2,4) q1 by metis
    have "0 \<le> rnd ?q * 100" using r0 by simp
    then have p0: "0 \<le> rnd (rnd ?q * 100)" using assms(2,3) by metis
    have "rnd ?q * 100 \<le> 100" using r1 by simp
    then have p1: "rnd (rnd ?q * 100) \<le> 100" using assms(2,5) by metis
    from b r0 r1 p0 p1 show ?thesis
      by (simp add: bk_percentage_def black_youth_percentage_def py_truediv_def)
  qed
  from zero pos show ?thesis by blast
qed

theorem percentage_bounds_witness:
  "bk_percentage (\<lambda>x. x) sample_black sample_table = Inr (1 / 2)
   \<and> black_youth_percentage (\<lambda>x. x) sample_black sample_table = Inr 50
   \<and> bk_percentage (\<lambda>x. x) (DataFrame []) (DataFrame [] :: rat frame) = Inl ZeroDivisionError"
proof -
  have s1: "subseq (rows sample_black) (rows sample_table)"
    using contains_filter_subseq [of "''self_defined_ethnicity''" "''Black''" sample_table sample_black]
      sample_black_eq by (simp add: black_def)
  have s2: "subseq (rows (DataFrame [] :: rat frame)) (rows (DataFrame [] :: rat frame))" by simp
  have r: "\<forall>x y :: rat. x \<le> y \<longrightarrow> (\<lambda>x. x) x \<le> (\<lambda>x. x) y" by simp
  have n: "rows sample_table \<noteq> []" by code_simp
  have a: "bk_percentage (\<lambda>x. x) sample_black sample_table = Inr (1 / 2)" by code_simp
  have b: "black_youth_percentage (\<lambda>x. x) sample_black sample_table = Inr 50" by code_simp
  from percentage_bounds [OF s1 r refl refl refl] percentage_bounds [OF s2 r refl refl refl] n a b
  show ?thesis by simp
qed

section \<open>Normalized rows and geo-tagging\<close>

lemma parse_ss_event_normalized:
  assumes "parse_ss_event pf cr = Inr r"
  shows "normalized r"
proof -
  from parse_ss_event_Inr [OF assms] obtain a b c d e f x y g h where
    r: "r = [(''age_range'', a), (''outcome'', b), (''involed_person'', c), (''gender'', d),
             (''self_defined_ethnicity'', e), (''street_id'', f), (''longitude'', PFloat x),
             (''latitude'', PFloat y), (''date'', g), (''officer_ethnicity'', h)]"
    by blast
  show ?thesis unfolding r normalized_def cell_def ss_columns_def by simp
qed

lemma emap_results:
  assumes "emap f xs = Inr ys" and "y \<in> set ys"
  shows "\<exists>x\<in>set xs. f x = Inr y"
  using assms
proof (induction xs arbitrary: ys)
  case Nil
  then show ?case by simp
next
  case (Cons a xs)
  from Cons.prems(1) obtain b bs where b: "f a = Inr b" and bs: "emap f xs = Inr bs"
    and ys: "ys = b # bs"
    by (auto simp: ebind_eq_Inr)
  show ?case
  proof (cases "y = b")
    case True
    with b show ?thesis by simp
  next
    case False
    with Cons.prems(2) ys have "y \<in> set bs" by simp
    from Cons.IH [OF bs this] show ?thesis by auto
  qed
qed

lemma normalized_labels:
  assumes "normalized r"
  shows "map fst r = ss_columns"
  using assms by (simp add: normalized_def)

text \<open>A monthly table holds normalized rows only, and has their columns once it has a row.\<close>

lemma parsing_normalized:
  assumes "parsing pf v = Inr t"
  shows "(\<forall>r\<in>set (rows t). normalized r)
       \<and> (rows t \<noteq> [] \<longrightarrow> set ss_columns \<subseteq> set (columns t))"
proof -
  from assms obtain events rs where e: "emap (parse_ss_event pf) events = Inr rs"
    and t: "t = DataFrame rs"
    by (auto simp: parsing_def ebind_eq_Inr)
  have n: "\<forall>r\<in>set rs. normalized r"
    using emap_results [OF e] parse_ss_event_normalized by blast
  have "set ss_columns \<subseteq> set (columns t)" if "rs \<noteq> []"
  proof -
    from that obtain r rs' where c: "rs = r # rs'" by (cases rs) auto
    with n have "normalized r" by simp
    from normalized_labels [OF this] c show ?thesis
      by (simp add: t DataFrame_def)
  qed
  with n show ?thesis by (simp add: t)
qed

lemma get_month_crime_normalized:
  assumes "get_month_crime pf fetch m y = Inr t"
  shows "(\<forall>r\<in>set (rows t). normalized r)
       \<and> (rows t \<noteq> [] \<longrightarrow> set ss_columns \<subseteq> set (columns t))"
  using assms parsing_normalized by (auto simp: get_month_crime_def ebind_eq_Inr)

lemma yearly_crimes_20_normalized:
  assumes "yearly_crimes_20 pf fetch = Inr y"
  shows "(\<forall>r\<in>set (rows y). normalized r)
       \<and> (rows y \<noteq> [] \<longrightarrow> set ss_columns \<subseteq> set (columns y))"
proof -
  from assms obtain fs where e: "emap (\<lambda>m. get_month_crime pf fetch m ''2020'') months = Inr fs"
    and y: "y = pd_concat fs"
    by (auto simp: yearly_crimes_20_def ebind_eq_Inr)
  have f: "(\<forall>r\<in>set (rows t). normalized r)
         \<and> (rows t \<noteq> [] \<longrightarrow> set ss_columns \<subseteq> set (columns t))"
    if "t \<in> set fs" for t
    using emap_results [OF e that] get_month_crime_normalized by blast
  have "\<forall>r\<in>set (rows y). normalized r"
    using f by (auto simp: y)
  moreover have "set ss_columns \<subseteq> set (columns y)" if "rows y \<noteq> []"
  proof -
    from that obtain t where "t \<in> set fs" and "rows t \<noteq> []" by (auto simp: y)
    with f have "set ss_columns \<subseteq> set (columns t)" by blast
    with \<open>t \<in> set fs\<close> show ?thesis by (auto simp: y pd_concat_def)
  qed
  ultimately show ?thesis by blast
qed

text \<open>The point of a normalized row.\<close>

lemma emap_zip_points:
  assumes "\<forall>r\<in>set rs. is_float (cell r a) \<and> is_float (cell r b)"
  shows "emap (\<lambda>xy. ebind (as_float64 (fst xy)) (\<lambda>x.
                    ebind (as_float64 (snd xy)) (\<lambda>y. Inr (PPoint x y))))
           (zip (map (\<lambda>r. cell r a) rs) (map (\<lambda>r. cell r b) rs))
         = Inr (map (\<lambda>r. PPoint (projr (as_float64 (cell r a))) (projr (as_float64 (cell r b)))) rs)"
  using assms
proof (induction rs)
  case Nil
  show ?case by simp
next
  case (Cons r rs)
  from Cons.prems obtain x y where "cell r a = PFloat x" and "cell r b = PFloat y"
    by (cases "cell r a"; cases "cell r b") auto
  with Cons show ?case by simp
qed

lemma zip_with_self: "map (\<lambda>rg. F (fst rg) (snd rg)) (zip xs (map h xs)) = map (\<lambda>x. F x (h x)) xs"
  by (induction xs) simp_all

lemma update_fresh:
  assumes "k \<notin> set (map fst r)"
  shows "AList.update k v r = r @ [(k, v)]"
  using assms by (induction r) auto

lemma crimes_geodf_20_eq:
  assumes "set ss_columns \<subseteq> set (columns y)"
    and "\<forall>r\<in>set (rows y). normalized r"
  shows "crimes_geodf_20 y =
           Inr \<lparr>columns = union_labels (columns y) [''geometry''],
                rows = map (\<lambda>r. r @ [(''geometry'',
                              PPoint (projr (as_float64 (cell r ''longitude'')))
                                     (projr (as_float64 (cell r ''latitude''))))]) (rows y),
                crs = Some ''EPSG:27700''\<rparr>"
proof -
  let ?pt = "\<lambda>r. PPoint (projr (as_float64 (cell r ''longitude'')))
                        (projr (as_float64 (cell r ''latitude'')))"
  have fl: "\<forall>r\<in>set (rows y). is_float (cell r ''longitude'') \<and> is_float (cell r ''latitude'')"
    using assms(2) by (simp add: normalized_def)
  have pts: "points_from_xy (map (\<lambda>r. cell r ''longitude'') (rows y))
               (map (\<lambda>r. cell r ''latitude'') (rows y)) = Inr (map ?pt (rows y))"
    using emap_zip_points [OF fl] by (simp add: points_from_xy_def)
  have upd: "map (\<lambda>rg. AList.update ''geometry'' (snd rg) (fst rg)) (zip (rows y) (map ?pt (rows y)))
             = map (\<lambda>r. r @ [(''geometry'', ?pt r)]) (rows y)"
  proof -
    have "AList.update ''geometry'' (?pt r) r = r @ [(''geometry'', ?pt r)]" if "r \<in> set (rows y)" for r
    proof -
      from that assms(2) have "normalized r" by blast
      from normalized_labels [OF this] show ?thesis
        by (intro update_fresh) (simp add: ss_columns_def)
    qed
    then show ?thesis
      using zip_with_self [of "\<lambda>r g. AList.update ''geometry'' g r" "rows y" ?pt] by simp
  qed
  from assms(1) have "''longitude'' \<in> set (columns y)" and "''latitude'' \<in> set (columns y)"
    by (auto simp: ss_columns_def)
  with pts upd show ?thesis
    by (simp add: crimes_geodf_20_def getcol_def GeoDataFrame_def)
qed

lemma emap_map:
  assumes "\<forall>x\<in>set xs. f x = Inr (g x)"
  shows "emap f xs = Inr (map g xs)"
  using assms by (induction xs) simp_all

lemma get_month_crime_serve:
  "get_month_crime pf (serve m payload) m' ''2020'' =
     (if m' = m then parsing pf (PList payload) else Inr (DataFrame []))"
  by (simp add: get_month_crime_def serve_def parsing_def)

lemma concat_single:
  assumes "distinct xs" and "m \<in> set xs"
  shows "concat (map (\<lambda>x. if x = m then r else []) xs) = r"
  using assms by (induction xs) auto

lemma distinct_months: "distinct months"
  by (simp add: months_def)

text \<open>With one month served, the annual table is that month's table, row for row.\<close>

lemma yearly_crimes_20_serve:
  assumes "emap (parse_ss_event pf) payload = Inr rs" and "m \<in> set months"
  shows "\<exists>y. yearly_crimes_20 pf (serve m payload) = Inr y \<and> rows y = rs"
proof -
  let ?g = "\<lambda>m'. if m' = m then DataFrame rs else DataFrame []"
  have p: "parsing pf (PList payload) = Inr (DataFrame rs)"
    by (simp add: parsing_def assms(1))
  have "emap (\<lambda>m'. get_month_crime pf (serve m payload) m' ''2020'') months = Inr (map ?g months)"
    by (rule emap_map) (simp add: get_month_crime_serve p)
  then have y: "yearly_crimes_20 pf (serve m payload) = Inr (pd_concat (map ?g months))"
    by (simp add: yearly_crimes_20_def)
  have "map rows (map ?g months) = map (\<lambda>m'. if m' = m then rs else []) months"
    by simp
  then have "rows (pd_concat (map ?g months)) = rs"
    using concat_single [OF distinct_months assms(2), of rs] by (simp del: map_map)
  with y show ?thesis by simp
qed

text \<open>
  C9 as the claim states it fails on the annual table of a year without events: the
  twelve empty monthly frames have no columns, and the geo-tagger raises on the first
  column it asks for.
\<close>

theorem crimes_geodf_20_empty_counterexample:
  "ebind (yearly_crimes_20 float_dec (serve ''01'' [])) crimes_geodf_20
     = Inl (KeyError (KStr ''longitude''))"
  by code_simp

text \<open>
  C9, amended. For every annual table with at least one row, the geo-tagger returns a
  table tagged \<^verbatim>\<open>EPSG:27700\<close> with the same number of rows, where each row is the
  annual table's row followed by a \<^verbatim>\<open>geometry\<close> cell holding the point of that row's
  own longitude and latitude, in this order.
\<close>

theorem crimes_geodf_20_points:
  assumes "yearly_crimes_20 pf fetch = Inr y" and "rows y \<noteq> []"
  shows "\<exists>g. crimes_geodf_20 y = Inr g
           \<and> crs g = Some ''EPSG:27700''
           \<and> length (rows g) = length (rows y)
           \<and> (\<forall>i<length (rows y). \<exists>lon lat.
                 cell (rows y ! i) ''longitude'' = PFloat lon
               \<and> cell (rows y ! i) ''latitude'' = PFloat lat
               \<and> rows g ! i = rows y ! i @ [(''geometry'', PPoint lon lat)])"
proof -
  from yearly_crimes_20_normalized [OF assms(1)] assms(2)
  have c: "set ss_columns \<subseteq> set (columns y)"
    and n: "\<forall>r\<in>set (rows y). normalized r" by blast+
  have "\<exists>lon lat. cell (rows y ! i) ''longitude'' = PFloat lon
               \<and> cell (rows y ! i) ''latitude'' = PFloat lat
               \<and> rows y ! i @ [(''geometry'',
                     PPoint (projr (as_float64 (cell (rows y ! i) ''longitude'')))
                            (projr (as_float64 (cell (rows y ! i) ''latitude''))))]
                 = rows y ! i @ [(''geometry'', PPoint lon lat)]"
    if "i < length (rows y)" for i
  proof -
    from that n have "normalized (rows y ! i)" by simp
    then obtain lon lat where "cell (rows y ! i) ''longitude'' = PFloat lon"
      and "cell (rows y ! i) ''latitude'' = PFloat lat"
      by (cases "cell (rows y ! i) ''longitude''"; cases "cell (rows y ! i) ''latitude''")
         (auto simp: normalized_def)
    then show ?thesis by simp
  qed
  then show ?thesis
    by (simp add: crimes_geodf_20_eq [OF c n])
qed


theorem crimes_geodf_20_points_witness:
  "\<exists>y g. yearly_crimes_20 float_dec (serve ''03'' [ss0]) = Inr y
     \<and> crimes_geodf_20 y = Inr g
     \<and> crs g = Some ''EPSG:27700''
     \<and> length (rows g) = 1
     \<and> rows g ! 0 = rows y ! 0 @ [(''geometry'', PPoint (- 2.961643) 53.420561)]"
proof -
  have e: "emap (parse_ss_event float_dec) [ss0] = Inr [projr (parse_ss_event float_dec ss0)]"
    by code_simp
  have m: "''03'' \<in> set months" by (simp add: months_def)
  from yearly_crimes_20_serve [OF e m] obtain y
    where y: "yearly_crimes_20 float_dec (serve ''03'' [ss0]) = Inr y"
      and r: "rows y = [projr (parse_ss_event float_dec ss0)]" by blast
  have lon: "cell (projr (parse_ss_event float_dec ss0)) ''longitude'' = PFloat (- 2.961643)"
    by code_simp
  have lat: "cell (projr (parse_ss_event float_dec ss0)) ''latitude'' = PFloat 53.420561"
    by code_simp
  from r have ne: "rows y \<noteq> []" by simp
  from crimes_geodf_20_points [OF y ne] r lon lat y show ?thesis
    by auto
qed

section \<open>End to end\<close>

lemma filter_count_transfer:
  assumes "list_all2 R xs ys" and "\<And>x y. R x y \<Longrightarrow> P x = Q (U y)"
  shows "length (filter P xs) = length (filter Q (map U ys))"
  using assms by (induction rule: list_all2_induct) simp_all

text \<open>The label cells of a geo-tagged row are the raw event's values.\<close>

lemma parse_ss_event_label_cells:
  assumes "parse_ss_event pf cr = Inr r"
  shows "str_contains pat (cell (r @ [(''geometry'', p)]) ''self_defined_ethnicity'')
           = raw_contains ''self_defined_ethnicity'' pat cr"
    and "str_contains pat (cell (r @ [(''geometry'', p)]) ''age_range'')
           = raw_contains ''age_range'' pat cr"
proof -
  from parse_ss_event_Inr [OF assms] obtain a b c d e f x y g h where
    r: "r = [(''age_range'', a), (''outcome'', b), (''involed_person'', c), (''gender'', d),
             (''self_defined_ethnicity'', e), (''street_id'', f), (''longitude'', PFloat x),
             (''latitude'', PFloat y), (''date'', g), (''officer_ethnicity'', h)]"
    and a: "getitem cr (KStr ''age_range'') = Inr a"
    and e: "getitem cr (KStr ''self_defined_ethnicity'') = Inr e"
    by blast
  show "str_contains pat (cell (r @ [(''geometry'', p)]) ''self_defined_ethnicity'')
           = raw_contains ''self_defined_ethnicity'' pat cr"
    unfolding r cell_def raw_contains_def e by (cases e) (simp_all add: contains_str_sublist)
  show "str_contains pat (cell (r @ [(''geometry'', p)]) ''age_range'')
           = raw_contains ''age_range'' pat cr"
    unfolding r cell_def raw_contains_def a by (cases a) (simp_all add: contains_str_sublist)
qed

text \<open>
  The pipeline on one served month of valid events: every stage returns. The annual
  table has one normalized row per event, in order; the spatial table is tagged
  \<^verbatim>\<open>EPSG:27700\<close> and each of its rows is the annual row followed by the point of its
  own longitude and latitude; the Black subset holds the spatial rows whose
  \<^verbatim>\<open>self_defined_ethnicity\<close> contains \<^verbatim>\<open>Black\<close>, the Black-youth subset those of
  them whose \<^verbatim>\<open>age_range\<close> contains \<^verbatim>\<open>18-24\<close>; their numbers are those of the
  payload.
\<close>

lemma pipeline_serve:
  assumes valid: "\<forall>cr\<in>set payload. \<exists>r. parse_ss_event pf cr = Inr r"
    and ne: "payload \<noteq> []"
    and m: "m \<in> set months"
  shows "\<exists>y g b yb.
           yearly_crimes_20 pf (serve m payload) = Inr y
         \<and> crimes_geodf_20 y = Inr g \<and> black g = Inr b \<and> black_youth b = Inr yb
         \<and> length (rows g) = length payload
         \<and> length (rows b) = length (filter (raw_contains ''self_defined_ethnicity'' ''Black'') payload)
         \<and> length (rows yb) =
             length (filter (\<lambda>cr. raw_contains ''self_defined_ethnicity'' ''Black'' cr
                                \<and> raw_contains ''age_range'' ''18-24'' cr) payload)
         \<and> list_all2 (\<lambda>cr r. parse_ss_event pf cr = Inr r) payload (rows y)
         \<and> crs g = Some ''EPSG:27700'' \<and> crs b = Some ''EPSG:27700''
         \<and> crs yb = Some ''EPSG:27700''
         \<and> ''geometry'' \<in> set (columns g)
         \<and> (\<forall>i<length payload. \<exists>lon lat.
               cell (rows y ! i) ''longitude'' = PFloat lon
             \<and> cell (rows y ! i) ''latitude'' = PFloat lat
             \<and> rows g ! i = rows y ! i @ [(''geometry'', PPoint lon lat)])
         \<and> rows b = filter (\<lambda>r. \<exists>s. cell r ''self_defined_ethnicity'' = PStr s
                                   \<and> sublist ''Black'' s) (rows g)
         \<and> rows yb = filter (\<lambda>r. \<exists>s. cell r ''age_range'' = PStr s \<and> sublist ''18-24'' s)
                        (rows b)"
proof -
  let ?pt = "\<lambda>r. PPoint (projr (as_float64 (cell r ''longitude'')))
                        (projr (as_float64 (cell r ''latitude'')))"
  let ?U = "\<lambda>r. r @ [(''geometry'', ?pt r)]"
  let ?B = "\<lambda>r. str_contains ''Black'' (cell r ''self_defined_ethnicity'')"
  let ?A = "\<lambda>r. str_contains ''18-24'' (cell r ''age_range'')"
  from emap_total [OF valid] obtain rs where e: "emap (parse_ss_event pf) payload = Inr rs"
    by blast
  then have rel: "list_all2 (\<lambda>cr r. parse_ss_event pf cr = Inr r) payload rs"
    by (simp add: emap_eq_Inr)
  then have len: "length rs = length payload" by (simp add: list_all2_lengthD)
  from yearly_crimes_20_serve [OF e m] obtain y
    where y: "yearly_crimes_20 pf (serve m payload) = Inr y" and ry: "rows y = rs" by blast
  from len ne have "rs \<noteq> []" by auto
  with yearly_crimes_20_normalized [OF y] ry
  have cols: "set ss_columns \<subseteq> set (columns y)" and norm: "\<forall>r\<in>set (rows y). normalized r"
    by simp_all
  define g where "g = \<lparr>columns = union_labels (columns y) [''geometry''],
                        rows = map ?U (rows y), crs = Some ''EPSG:27700''\<rparr>"
  have g: "crimes_geodf_20 y = Inr g"
    unfolding g_def by (rule crimes_geodf_20_eq [OF cols norm])
  have gc: "''self_defined_ethnicity'' \<in> set (columns g)" "''age_range'' \<in> set (columns g)"
    "''geometry'' \<in> set (columns g)"
    using cols by (auto simp: g_def ss_columns_def)
  have rg: "rows g = map ?U rs" by (simp add: g_def ry)
  have cg: "crs g = Some ''EPSG:27700''" by (simp add: g_def)
  define b where "b = g\<lparr>rows := filter ?B (rows g)\<rparr>"
  have b: "black g = Inr b"
    using gc(1) by (simp add: black_def contains_filter_eq b_def)
  define yb where "yb = b\<lparr>rows := filter ?A (rows b)\<rparr>"
  have yb: "black_youth b = Inr yb"
    using gc(2) by (simp add: black_youth_def contains_filter_eq yb_def b_def)
  have cb: "crs b = Some ''EPSG:27700''" "crs yb = Some ''EPSG:27700''"
    by (simp_all add: b_def yb_def cg)
  have l1: "length (rows g) = length payload"
    by (simp add: rg len)
  have pts: "\<forall>i<length payload. \<exists>lon lat.
               cell (rows y ! i) ''longitude'' = PFloat lon
             \<and> cell (rows y ! i) ''latitude'' = PFloat lat
             \<and> rows g ! i = rows y ! i @ [(''geometry'', PPoint lon lat)]"
  proof (intro allI impI)
    fix i assume i: "i < length payload"
    with len norm ry have "normalized (rs ! i)" by simp
    then obtain lon lat where "cell (rs ! i) ''longitude'' = PFloat lon"
      and "cell (rs ! i) ''latitude'' = PFloat lat"
      by (cases "cell (rs ! i) ''longitude''"; cases "cell (rs ! i) ''latitude''")
         (auto simp: normalized_def)
    with i len show "\<exists>lon lat.
               cell (rows y ! i) ''longitude'' = PFloat lon
             \<and> cell (rows y ! i) ''latitude'' = PFloat lat
             \<and> rows g ! i = rows y ! i @ [(''geometry'', PPoint lon lat)]"
      by (simp add: rg ry)
  qed
  have rb: "rows b = filter (\<lambda>r. \<exists>s. cell r ''self_defined_ethnicity'' = PStr s
                                   \<and> sublist ''Black'' s) (rows g)"
    by (simp add: b_def str_contains_iff)
  have ryb: "rows yb = filter (\<lambda>r. \<exists>s. cell r ''age_range'' = PStr s \<and> sublist ''18-24'' s)
                        (rows b)"
    by (simp add: yb_def str_contains_iff)
  have l2: "length (rows b) = length (filter (raw_contains ''self_defined_ethnicity'' ''Black'') payload)"
  proof -
    have "length (filter (raw_contains ''self_defined_ethnicity'' ''Black'') payload)
            = length (filter ?B (map ?U rs))"
      by (rule filter_count_transfer [OF rel]) (simp add: parse_ss_event_label_cells(1))
    then show ?thesis by (simp add: b_def rg)
  qed
  have l3: "length (rows yb) =
             length (filter (\<lambda>cr. raw_contains ''self_defined_ethnicity'' ''Black'' cr
                                \<and> raw_contains ''age_range'' ''18-24'' cr) payload)"
  proof -
    have "length (filter (\<lambda>cr. raw_contains ''self_defined_ethnicity'' ''Black'' cr
                                \<and> raw_contains ''age_range'' ''18-24'' cr) payload)
            = length (filter (\<lambda>r. ?B r \<and> ?A r) (map ?U rs))"
      by (rule filter_count_transfer [OF rel]) (simp add: parse_ss_event_label_cells)
    then show ?thesis by (simp add: yb_def b_def rg)
  qed
  from rel ry have rel': "list_all2 (\<lambda>cr r. parse_ss_event pf cr = Inr r) payload (rows y)"
    by simp
  from y g b yb rel' cg cb gc(3) l1 pts rb ryb l2 l3 show ?thesis by blast
qed

text \<open>
  C5. A fake monthly payload of 100 valid events, of which exactly 10 have \<^verbatim>\<open>Black\<close>
  in \<^verbatim>\<open>self_defined_ethnicity\<close> and exactly 5 of those have \<^verbatim>\<open>18-24\<close> in
  \<^verbatim>\<open>age_range\<close>, served for one month of the year: the pipeline returns a spatial
  table of 100 rows (one per event in order, each with the point of its own longitude
  and latitude, tagged \<^verbatim>\<open>EPSG:27700\<close>), a Black subset of 10 of these rows and a
  Black-youth subset of 5 of those.
\<close>

theorem end_to_end_counts:
  assumes "\<forall>cr\<in>set payload. \<exists>r. parse_ss_event pf cr = Inr r"
    and "length payload = 100"
    and "length (filter (raw_contains ''self_defined_ethnicity'' ''Black'') payload) = 10"
    and "length (filter (\<lambda>cr. raw_contains ''self_defined_ethnicity'' ''Black'' cr
                             \<and> raw_contains ''age_range'' ''18-24'' cr) payload) = 5"
    and "m \<in> set months"
  shows "\<exists>y g b yb.
           yearly_crimes_20 pf (serve m payload) = Inr y
         \<and> crimes_geodf_20 y = Inr g \<and> black g = Inr b \<and> black_youth b = Inr yb
         \<and> length (rows g) = 100 \<and> length (rows b) = 10 \<and> length (rows yb) = 5
         \<and> list_all2 (\<lambda>cr r. parse_ss_event pf cr = Inr r) payload (rows y)
         \<and> crs g = Some ''EPSG:27700'' \<and> crs b = Some ''EPSG:27700''
         \<and> crs yb = Some ''EPSG:27700''
         \<and> ''geometry'' \<in> set (columns g)
         \<and> (\<forall>i<100. \<exists>lon lat.
               cell (rows y ! i) ''longitude'' = PFloat lon
             \<and> cell (rows y ! i) ''latitude'' = PFloat lat
             \<and> rows g ! i = rows y ! i @ [(''geometry'', PPoint lon lat)])
         \<and> rows b = filter (\<lambda>r. \<exists>s. cell r ''self_defined_ethnicity'' = PStr s
                                   \<and> sublist ''Black'' s) (rows g)
         \<and> rows yb = filter (\<lambda>r. \<exists>s. cell r ''age_range'' = PStr s \<and> sublist ''18-24'' s)
                        (rows b)"
proof -
  from assms(2) have "payload \<noteq> []" by auto
  from pipeline_serve [OF assms(1) this assms(5)]
  show ?thesis unfolding assms(2,3,4) .
qed

lemma fake_events_parse:
  "parse_ss_event float_dec (fake_event ''Black/African/Caribbean/Black British - African'' ''18-24'')
     = Inr (projr (parse_ss_event float_dec
         (fake_event ''Black/African/Caribbean/Black British - African'' ''18-24'')))"
  "parse_ss_event float_dec (fake_event ''Black/African/Caribbean/Black British - Caribbean'' ''over 34'')
     = Inr (projr (parse_ss_event float_dec
         (fake_event ''Black/African/Caribbean/Black British - Caribbean'' ''over 34'')))"
  "parse_ss_event float_dec (fake_event ''White - English/Welsh/Scottish/Northern Irish/British'' ''25-34'')
     = Inr (projr (parse_ss_event float_dec
         (fake_event ''White - English/Welsh/Scottish/Northern Irish/British'' ''25-34'')))"
  by code_simp+

lemma fake_events_labels:
  "raw_contains ''self_defined_ethnicity'' ''Black''
     (fake_event ''Black/African/Caribbean/Black British - African'' ''18-24'')"
  "raw_contains ''age_range'' ''18-24''
     (fake_event ''Black/African/Caribbean/Black British - African'' ''18-24'')"
  "raw_contains ''self_defined_ethnicity'' ''Black''
     (fake_event ''Black/African/Caribbean/Black British - Caribbean'' ''over 34'')"
  "\<not> raw_contains ''age_range'' ''18-24''
     (fake_event ''Black/African/Caribbean/Black British - Caribbean'' ''over 34'')"
  "\<not> raw_contains ''self_defined_ethnicity'' ''Black''
     (fake_event ''White - English/Welsh/Scottish/Northern Irish/British'' ''25-34'')"
  by code_simp+

theorem end_to_end_counts_witness:
  "\<exists>y g b yb.
     yearly_crimes_20 float_dec (serve ''03'' fake_payload) = Inr y
   \<and> crimes_geodf_20 y = Inr g \<and> black g = Inr b \<and> black_youth b = Inr yb
   \<and> length (rows g) = 100 \<and> length (rows b) = 10 \<and> length (rows yb) = 5
   \<and> crs g = Some ''EPSG:27700'' \<and> ''geometry'' \<in> set (columns g)"
proof -
  have v: "\<forall>cr\<in>set fake_payload. \<exists>r. parse_ss_event float_dec cr = Inr r"
    using fake_events_parse by (auto simp: fake_payload_def)
  have n: "length fake_payload = 100"
    by (simp add: fake_payload_def)
  have k: "length (filter (raw_contains ''self_defined_ethnicity'' ''Black'') fake_payload) = 10"
    by (simp add: fake_payload_def fake_events_labels)
  have j: "length (filter (\<lambda>cr. raw_contains ''self_defined_ethnicity'' ''Black'' cr
                             \<and> raw_contains ''age_range'' ''18-24'' cr) fake_payload) = 5"
    by (simp add: fake_payload_def fake_events_labels)
  have m: "''03'' \<in> set months" by (simp add: months_def)
  from end_to_end_counts [OF v n k j m] show ?thesis by blast
qed

section \<open>Splitting the isochrones\<close>










lemma from_features_single:
  "from_features pf [feature] c = Inr a \<longleftrightarrow>
     (\<exists>r. feature_row pf feature = Inr r
        \<and> a = \<lparr>columns = union_labels [] (map fst r), rows = [r], crs = Some c\<rparr>)"
  by (auto simp: from_features_def ebind_eq_Inr)

lemma walk_features:
  assumes "getitem walk (KStr ''features'') = Inr (PList [f0, f1])"
  shows "walk_5_feature walk = Inr f0" and "walk_10_feature walk = Inr f1"
  using assms by (simp_all add: walk_5_feature_def walk_10_feature_def seq_index_def)






text \<open>
  C10. The split goes by position: of a two-feature response, \<^verbatim>\<open>walk_5\<close> is built
  from the first feature and \<^verbatim>\<open>walk_10\<close> from the second, whatever their
  \<^verbatim>\<open>contour\<close>: a frame that \<^verbatim>\<open>walk_5\<close> returns has the row of the first feature as
  its only row, and \<^verbatim>\<open>walk_10\<close> that of the second. In the recorded response the
  first feature has contour 10 and the second contour 5, so the frame named
  \<^verbatim>\<open>walk_5\<close> holds the 10-minute polygon (the recorded ring of 28 vertices) with
  contour 10, and the frame named \<^verbatim>\<open>walk_10\<close> the 5-minute polygon (16 vertices)
  with contour 5.
\<close>

theorem split_by_position:
  assumes "getitem walk (KStr ''features'') = Inr (PList [f0, f1])"
  shows "walk_5_feature walk = Inr f0 \<and> walk_10_feature walk = Inr f1
       \<and> walk_5 pf walk = from_features pf [f0] ''EPSG:4326''
       \<and> walk_10 pf walk = from_features pf [f1] ''EPSG:4326''
       \<and> (\<forall>a. walk_5 pf walk = Inr a \<longrightarrow> (\<exists>r. feature_row pf f0 = Inr r \<and> rows a = [r]))
       \<and> (\<forall>b. walk_10 pf walk = Inr b \<longrightarrow> (\<exists>r. feature_row pf f1 = Inr r \<and> rows b = [r]))
       \<and> ebind (walk_5_feature recorded_walk)
            (\<lambda>f. ebind (getitem f (KStr ''properties'')) (\<lambda>p. getitem p (KStr ''contour'')))
           = Inr (PInt 10)
       \<and> ebind (walk_10_feature recorded_walk)
            (\<lambda>f. ebind (getitem f (KStr ''properties'')) (\<lambda>p. getitem p (KStr ''contour'')))
           = Inr (PInt 5)
       \<and> ebind (walk_5 float_dec recorded_walk)
            (\<lambda>a. Inr (map (\<lambda>r. (cell r ''contour'', cell r ''geometry'')) (rows a)))
           = Inr [(PInt 10, PPolygon [map (\<lambda>xy. [fst xy, snd xy]) recorded_ring_0])]
       \<and> ebind (walk_10 float_dec recorded_walk)
            (\<lambda>b. Inr (map (\<lambda>r. (cell r ''contour'', cell r ''geometry'')) (rows b)))
           = Inr [(PInt 5, PPolygon [map (\<lambda>xy. [fst xy, snd xy]) recorded_ring_1])]
       \<and> length recorded_ring_0 = 28 \<and> length recorded_ring_1 = 16"
proof -
  have c5: "ebind (walk_5_feature recorded_walk)
            (\<lambda>f. ebind (getitem f (KStr ''properties'')) (\<lambda>p. getitem p (KStr ''contour'')))
           = Inr (PInt 10)"
    by code_simp
  have c10: "ebind (walk_10_feature recorded_walk)
            (\<lambda>f. ebind (getitem f (KStr ''properties'')) (\<lambda>p. getitem p (KStr ''contour'')))
           = Inr (PInt 5)"
    by code_simp
  have w5: "ebind (walk_5 float_dec recorded_walk)
            (\<lambda>a. Inr (map (\<lambda>r. (cell r ''contour'', cell r ''geometry'')) (rows a)))
           = Inr [(PInt 10, PPolygon [map (\<lambda>xy. [fst xy, snd xy]) recorded_ring_0])]"
    by code_simp
  have w10: "ebind (walk_10 float_dec recorded_walk)
            (\<lambda>b. Inr (map (\<lambda>r. (cell r ''contour'', cell r ''geometry'')) (rows b)))
           = Inr [(PInt 5, PPolygon [map (\<lambda>xy. [fst xy, snd xy]) recorded_ring_1])]"
    by code_simp
  have n: "length recorded_ring_0 = 28" "length recorded_ring_1 = 16"
    by (simp_all add: recorded_ring_0_def recorded_ring_1_def)
  have f: "walk_5 pf walk = from_features pf [f0] ''EPSG:4326''"
    "walk_10 pf walk = from_features pf [f1] ''EPSG:4326''"
    using walk_features [OF assms] by (simp_all add: walk_5_def walk_10_def)
  have ra: "\<forall>a. walk_5 pf walk = Inr a \<longrightarrow> (\<exists>r. feature_row pf f0 = Inr r \<and> rows a = [r])"
    unfolding f from_features_single by auto
  have rb: "\<forall>b. walk_10 pf walk = Inr b \<longrightarrow> (\<exists>r. feature_row pf f1 = Inr r \<and> rows b = [r])"
    unfolding f from_features_single by auto
  from walk_features [OF assms] f ra rb c5 c10 w5 w10 n show ?thesis by blast
qed

theorem split_by_position_witness:
  "walk_5_feature recorded_walk = Inr recorded_feature_0
   \<and> walk_10_feature recorded_walk = Inr recorded_feature_1
   \<and> getitem (PDict recorded_properties_0) (KStr ''contour'') = Inr (PInt 10)
   \<and> getitem (PDict recorded_properties_1) (KStr ''contour'') = Inr (PInt 5)"
proof -
  have w: "getitem recorded_walk (KStr ''features'') = Inr (PList [recorded_feature_0, recorded_feature_1])"
    by (simp add: recorded_walk_def)
  have "getitem (PDict recorded_properties_0) (KStr ''contour'') = Inr (PInt 10)" by code_simp
  moreover have "getitem (PDict recorded_properties_1) (KStr ''contour'') = Inr (PInt 5)" by code_simp
  ultimately show ?thesis using split_by_position [OF w, of float_dec] by simp
qed

end
